theory Spec2Isabelle
  imports Main "HOL-Library.Word"
begin

section \<open>Data model of refresh.go\<close>

text \<open>
  A pointer \<^verbatim>\<open>*value\<close> is an index into the list of all \<^verbatim>\<open>value\<close> structs allocated so
  far; allocation appends. An \<^verbatim>\<open>interface{}\<close> and an \<^verbatim>\<open>error\<close> are options, \<open>None\<close> being
  \<^verbatim>\<open>nil\<close>. Instants of \<^verbatim>\<open>time.Time\<close> and durations are integer nanosecond counts; the zero
  \<^verbatim>\<open>time.Time\<close> is \<open>0\<close> and \<^verbatim>\<open>time.Since(t)\<close> is the clock reading minus \<open>t\<close>.
\<close>

type_synonym addr = nat

type_synonym ('v, 'e) result = "'v option \<times> 'e option"

text \<open>
  \<^verbatim>\<open>sync.Once\<close>: the zero value has not run; while the one call of \<^verbatim>\<open>Do\<close> that runs its
  argument is inside it the gate is \<open>Running\<close> and every other \<^verbatim>\<open>Do\<close> waits; afterwards it is
  \<open>Done\<close> and \<^verbatim>\<open>Do\<close> returns at once.
\<close>

datatype once = Unused | Running | Done

text \<open>\<^verbatim>\<open>type value struct { val; err; when; refresh sync.Once; refreshStale uint32 }\<close>\<close>

record ('v, 'e) valueT =
  val :: "'v option"
  err :: "'e option"
  when_t :: int
  refresh :: once
  refreshStale :: "32 word"

text \<open>
  \<^verbatim>\<open>type Refresher struct { val atomic.Value; maxAge; refreshFn; staleWhileRefresh }\<close>.
  The field \<^verbatim>\<open>val\<close> is \<open>valp\<close> here. The function \<^verbatim>\<open>refreshFn\<close> may be \<^verbatim>\<open>nil\<close> (\<open>None\<close>);
  otherwise it is a function of the caller's own state \<open>'u\<close>, which it may change.
\<close>

record ('v, 'e, 'u) Refresher =
  valp :: addr
  maxAge :: int
  refreshFn :: "('u \<Rightarrow> ('v, 'e) result \<times> 'u) option"
  staleWhileRefresh :: bool

definition zero_value :: "('v, 'e) valueT" where
  "zero_value = \<lparr>val = None, err = None, when_t = 0, refresh = Unused, refreshStale = 0\<rparr>"

definition IsZero :: "int \<Rightarrow> bool" where
  "IsZero t \<longleftrightarrow> t = 0"

definition since :: "int \<Rightarrow> int \<Rightarrow> int" where
  "since now t = now - t"

text \<open>
  \<^verbatim>\<open>New\<close> panics (\<open>Inl\<close> with the panic value) or returns the new Refresher together with
  the memory it allocated: one zero \<^verbatim>\<open>value\<close>, stored in \<^verbatim>\<open>r.val\<close>.
\<close>

definition New ::
  "int \<Rightarrow> ('u \<Rightarrow> ('v, 'e) result \<times> 'u) option
     \<Rightarrow> string + (('v, 'e, 'u) Refresher \<times> ('v, 'e) valueT list)" where
  "New maxAge' refreshFn' =
     (if maxAge' \<le> 0 then Inl ''refresh: maxAge must be positive duration''
      else Inr (\<lparr>valp = 0, maxAge = maxAge', refreshFn = refreshFn',
                 staleWhileRefresh = False\<rparr>, [zero_value]))"

definition SetStaleWhileRefresh ::
  "bool \<Rightarrow> ('v, 'e, 'u) Refresher \<Rightarrow> ('v, 'e, 'u) Refresher" where
  "SetStaleWhileRefresh v r = r\<lparr>staleWhileRefresh := v\<rparr>"

section \<open>Load, step by step\<close>

text \<open>
  The four \<^verbatim>\<open>return\<close> statements of \<^verbatim>\<open>Load\<close>, \<^verbatim>\<open>loadFresh\<close> and \<^verbatim>\<open>loadStale\<close>, each with the
  snapshot the call read first and, where it differs, the snapshot whose pair is returned:
  \<open>Hit a\<close> is line 67, \<open>Reloaded a m\<close> line 82, \<open>Lost a\<close> line 87, \<open>Won a m\<close> line 92.
\<close>

datatype site = Hit addr | Reloaded addr addr | Lost addr | Won addr addr

text \<open>
  Where a goroutine is inside a call of \<^verbatim>\<open>Load\<close>:
  \<^item> \<open>Start\<close>: called, before \<^verbatim>\<open>r.val.Load()\<close> (line 62);
  \<^item> \<open>Switch a\<close>: holds \<^verbatim>\<open>val = a\<close>, before the \<^verbatim>\<open>switch\<close> (line 63);
  \<^item> \<open>FreshDo a\<close>: in \<^verbatim>\<open>loadFresh\<close>, at \<^verbatim>\<open>val.refresh.Do\<close> (line 76);
  \<^item> \<open>FreshCall a\<close>: inside the gate, in the call \<^verbatim>\<open>r.refreshFn()\<close> (line 77);
  \<^item> \<open>FreshStore a p\<close>: \<^verbatim>\<open>refreshFn\<close> has returned \<open>p\<close>, before \<^verbatim>\<open>r.val.Store\<close> (line 78);
  \<^item> \<open>FreshExit a\<close>: stored, before the gate is marked done (line 79);
  \<^item> \<open>FreshReload a\<close>: \<^verbatim>\<open>Do\<close> has returned, before \<^verbatim>\<open>r.val.Load()\<close> (line 81);
  \<^item> \<open>StaleCAS a\<close>: in \<^verbatim>\<open>loadStale\<close>, at the compare-and-swap (line 86);
  \<^item> \<open>StaleCall a\<close>: in the call \<^verbatim>\<open>r.refreshFn()\<close> (line 90);
  \<^item> \<open>StaleStore a p\<close>: \<^verbatim>\<open>refreshFn\<close> has returned \<open>p\<close>, before \<^verbatim>\<open>r.val.Store\<close> (line 91);
  \<^item> \<open>Ret p s\<close>: \<^verbatim>\<open>Load\<close> has returned \<open>p\<close> at the return statement \<open>s\<close>;
  \<^item> \<open>Panicked\<close>: the call of a \<^verbatim>\<open>nil\<close> function has panicked.
\<close>

datatype ('v, 'e) pc =
    Start
  | Switch addr
  | FreshDo addr
  | FreshCall addr
  | FreshStore addr "('v, 'e) result"
  | FreshExit addr
  | FreshReload addr
  | StaleCAS addr
  | StaleCall addr
  | StaleStore addr "('v, 'e) result"
  | Ret "('v, 'e) result" site
  | Panicked

text \<open>
  The whole state: the Refresher, the allocated snapshots, the package variable
  \<^verbatim>\<open>testNeedsRefresh\<close>, the clock, the state \<^verbatim>\<open>refreshFn\<close> works on, and one \<open>pc\<close> per
  goroutine that calls \<^verbatim>\<open>Load\<close>. Two history variables, which no step reads: \<open>calls\<close> lists
  the calls of \<^verbatim>\<open>refreshFn\<close> issued (goroutine, snapshot whose gate or flag it took), and
  \<open>results\<close> what the calls returned (snapshot, pair).
\<close>

record ('v, 'e, 'u) config =
  refresher :: "('v, 'e, 'u) Refresher"
  heap :: "('v, 'e) valueT list"
  testNeedsRefresh :: bool
  clock :: int
  env :: 'u
  threads :: "('v, 'e) pc list"
  calls :: "(nat \<times> addr) list"
  results :: "(addr \<times> ('v, 'e) result) list"

definition set_pc :: "nat \<Rightarrow> ('v, 'e) pc \<Rightarrow> ('v, 'e, 'u) config \<Rightarrow> ('v, 'e, 'u) config" where
  "set_pc i q c = c\<lparr>threads := (threads c)[i := q]\<rparr>"

text \<open>\<^verbatim>\<open>r.val.Store(&value{newVal, err, time.Now(), sync.Once{}, 0})\<close>\<close>

definition publish :: "('v, 'e) result \<Rightarrow> ('v, 'e, 'u) config \<Rightarrow> ('v, 'e, 'u) config" where
  "publish p c =
     c\<lparr>heap := heap c @ [\<lparr>val = fst p, err = snd p, when_t = clock c,
                           refresh = Unused, refreshStale = 0\<rparr>],
       refresher := (refresher c)\<lparr>valp := length (heap c)\<rparr>\<rparr>"

definition set_refresh :: "addr \<Rightarrow> once \<Rightarrow> ('v, 'e, 'u) config \<Rightarrow> ('v, 'e, 'u) config" where
  "set_refresh a g c = c\<lparr>heap := (heap c)[a := (heap c ! a)\<lparr>refresh := g\<rparr>]\<rparr>"

definition set_refreshStale ::
  "addr \<Rightarrow> 32 word \<Rightarrow> ('v, 'e, 'u) config \<Rightarrow> ('v, 'e, 'u) config" where
  "set_refreshStale a w c = c\<lparr>heap := (heap c)[a := (heap c ! a)\<lparr>refreshStale := w\<rparr>]\<rparr>"

definition issue :: "nat \<Rightarrow> addr \<Rightarrow> ('v, 'e, 'u) config \<Rightarrow> ('v, 'e, 'u) config" where
  "issue i a c = c\<lparr>calls := calls c @ [(i, a)]\<rparr>"

text \<open>\<^verbatim>\<open>refreshFn\<close> returns \<open>p\<close> and leaves the caller's state \<open>u\<close>.\<close>

definition returned ::
  "addr \<Rightarrow> ('v, 'e) result \<Rightarrow> 'u \<Rightarrow> ('v, 'e, 'u) config \<Rightarrow> ('v, 'e, 'u) config" where
  "returned a p u c = c\<lparr>env := u, results := results c @ [(a, p)]\<rparr>"

text \<open>
  One atomic step of goroutine \<open>i\<close> at \<open>q\<close>; \<open>None\<close> when it cannot move (it waits at a
  running gate, or its call is over).
\<close>

fun step_pc ::
  "nat \<Rightarrow> ('v, 'e) pc \<Rightarrow> ('v, 'e, 'u) config \<Rightarrow> ('v, 'e, 'u) config option" where
  "step_pc i Start c = Some (set_pc i (Switch (valp (refresher c))) c)"
| "step_pc i (Switch a) c =
     (let v = heap c ! a in
      if testNeedsRefresh c then Some (set_pc i (FreshDo a) c)
      else if IsZero (when_t v) then Some (set_pc i (FreshDo a) c)
      else if since (clock c) (when_t v) \<le> maxAge (refresher c)
        then Some (set_pc i (Ret (val v, err v) (Hit a)) c)
      else if staleWhileRefresh (refresher c) then Some (set_pc i (StaleCAS a) c)
      else Some (set_pc i (FreshDo a) c))"
| "step_pc i (FreshDo a) c =
     (case refresh (heap c ! a) of
        Unused \<Rightarrow> Some (set_pc i (FreshCall a) (issue i a (set_refresh a Running c)))
      | Running \<Rightarrow> None
      | Done \<Rightarrow> Some (set_pc i (FreshReload a) c))"
| "step_pc i (FreshCall a) c =
     (case refreshFn (refresher c) of
        None \<Rightarrow> Some (set_pc i Panicked (set_refresh a Done c))
      | Some f \<Rightarrow>
          Some (set_pc i (FreshStore a (fst (f (env c))))
                 (returned a (fst (f (env c))) (snd (f (env c))) c)))"
| "step_pc i (FreshStore a p) c = Some (set_pc i (FreshExit a) (publish p c))"
| "step_pc i (FreshExit a) c = Some (set_pc i (FreshReload a) (set_refresh a Done c))"
| "step_pc i (FreshReload a) c =
     (let m = valp (refresher c); v = heap c ! m in
      Some (set_pc i (Ret (val v, err v) (Reloaded a m)) c))"
| "step_pc i (StaleCAS a) c =
     (let v = heap c ! a in
      if refreshStale v = 0
        then Some (set_pc i (StaleCall a) (issue i a (set_refreshStale a 1 c)))
      else Some (set_pc i (Ret (val v, err v) (Lost a)) c))"
| "step_pc i (StaleCall a) c =
     (case refreshFn (refresher c) of
        None \<Rightarrow> Some (set_pc i Panicked c)
      | Some f \<Rightarrow>
          Some (set_pc i (StaleStore a (fst (f (env c))))
                 (returned a (fst (f (env c))) (snd (f (env c))) c)))"
| "step_pc i (StaleStore a p) c =
     Some (set_pc i (Ret p (Won a (length (heap c)))) (publish p c))"
| "step_pc i (Ret p s) c = None"
| "step_pc i Panicked c = None"

definition step :: "nat \<Rightarrow> ('v, 'e, 'u) config \<Rightarrow> ('v, 'e, 'u) config option" where
  "step i c = (if i < length (threads c) then step_pc i (threads c ! i) c else None)"

text \<open>
  A schedule is a list of events: goroutine \<open>i\<close> takes its next step (nothing happens when
  it cannot), or the clock advances by \<open>d\<close> nanoseconds.
\<close>

datatype event = Step nat | Tick nat

fun exec :: "event \<Rightarrow> ('v, 'e, 'u) config \<Rightarrow> ('v, 'e, 'u) config" where
  "exec (Step i) c = (case step i c of None \<Rightarrow> c | Some c' \<Rightarrow> c')"
| "exec (Tick d) c = c\<lparr>clock := clock c + int d\<rparr>"

definition run :: "event list \<Rightarrow> ('v, 'e, 'u) config \<Rightarrow> ('v, 'e, 'u) config" where
  "run es c = fold exec es c"

text \<open>
  One whole call of \<^verbatim>\<open>Load\<close> by goroutine \<open>i\<close> with nothing else happening meanwhile: the
  longest path through \<^verbatim>\<open>Load\<close> and \<^verbatim>\<open>loadFresh\<close> has seven steps.
\<close>

definition Load_alone :: "nat \<Rightarrow> ('v, 'e, 'u) config \<Rightarrow> ('v, 'e, 'u) config" where
  "Load_alone i c = run (replicate 7 (Step i)) c"

text \<open>
  The state in which the goroutines start: a Refresher \<open>r\<close> with its memory \<open>h\<close>, and \<open>n\<close>
  goroutines that have each called \<^verbatim>\<open>Load\<close> and not yet taken a step.
\<close>

definition start ::
  "('v, 'e, 'u) Refresher \<Rightarrow> ('v, 'e) valueT list \<Rightarrow> bool \<Rightarrow> int \<Rightarrow> 'u \<Rightarrow> nat
     \<Rightarrow> ('v, 'e, 'u) config" where
  "start r h tnr t u n =
     \<lparr>refresher = r, heap = h, testNeedsRefresh = tnr, clock = t, env = u,
      threads = replicate n Start, calls = [], results = []\<rparr>"

text \<open>The function of the tests: it counts its calls and returns the count, with no error.\<close>

definition counter :: "nat \<Rightarrow> (nat, string) result \<times> nat" where
  "counter k = ((Some (Suc k), None), Suc k)"

text \<open>A function that fails: it counts its calls and returns an error each time.\<close>

definition failing :: "nat \<Rightarrow> (nat, string) result \<times> nat" where
  "failing k = ((None, Some ''error''), Suc k)"

section \<open>Projections of the state updates\<close>

lemma set_pc_simps [simp]:
  "refresher (set_pc i q c) = refresher c"
  "heap (set_pc i q c) = heap c"
  "testNeedsRefresh (set_pc i q c) = testNeedsRefresh c"
  "clock (set_pc i q c) = clock c"
  "env (set_pc i q c) = env c"
  "threads (set_pc i q c) = (threads c)[i := q]"
  "calls (set_pc i q c) = calls c"
  "results (set_pc i q c) = results c"
  by (simp_all add: set_pc_def)

lemma publish_simps [simp]:
  "refresher (publish p c) = (refresher c)\<lparr>valp := length (heap c)\<rparr>"
  "heap (publish p c) = heap c @ [\<lparr>val = fst p, err = snd p, when_t = clock c,
                           refresh = Unused, refreshStale = 0\<rparr>]"
  "testNeedsRefresh (publish p c) = testNeedsRefresh c"
  "clock (publish p c) = clock c"
  "env (publish p c) = env c"
  "threads (publish p c) = threads c"
  "calls (publish p c) = calls c"
  "results (publish p c) = results c"
  by (simp_all add: publish_def)

lemma set_refresh_simps [simp]:
  "refresher (set_refresh a g c) = refresher c"
  "heap (set_refresh a g c) = (heap c)[a := (heap c ! a)\<lparr>refresh := g\<rparr>]"
  "testNeedsRefresh (set_refresh a g c) = testNeedsRefresh c"
  "clock (set_refresh a g c) = clock c"
  "env (set_refresh a g c) = env c"
  "threads (set_refresh a g c) = threads c"
  "calls (set_refresh a g c) = calls c"
  "results (set_refresh a g c) = results c"
  by (simp_all add: set_refresh_def)

lemma set_refreshStale_simps [simp]:
  "refresher (set_refreshStale a w c) = refresher c"
  "heap (set_refreshStale a w c) = (heap c)[a := (heap c ! a)\<lparr>refreshStale := w\<rparr>]"
  "testNeedsRefresh (set_refreshStale a w c) = testNeedsRefresh c"
  "clock (set_refreshStale a w c) = clock c"
  "env (set_refreshStale a w c) = env c"
  "threads (set_refreshStale a w c) = threads c"
  "calls (set_refreshStale a w c) = calls c"
  "results (set_refreshStale a w c) = results c"
  by (simp_all add: set_refreshStale_def)

lemma issue_simps [simp]:
  "refresher (issue i a c) = refresher c"
  "heap (issue i a c) = heap c"
  "testNeedsRefresh (issue i a c) = testNeedsRefresh c"
  "clock (issue i a c) = clock c"
  "env (issue i a c) = env c"
  "threads (issue i a c) = threads c"
  "calls (issue i a c) = calls c @ [(i, a)]"
  "results (issue i a c) = results c"
  by (simp_all add: issue_def)

lemma returned_simps [simp]:
  "refresher (returned a p u c) = refresher c"
  "heap (returned a p u c) = heap c"
  "testNeedsRefresh (returned a p u c) = testNeedsRefresh c"
  "clock (returned a p u c) = clock c"
  "env (returned a p u c) = u"
  "threads (returned a p u c) = threads c"
  "calls (returned a p u c) = calls c"
  "results (returned a p u c) = results c @ [(a, p)]"
  by (simp_all add: returned_def)

lemma start_simps [simp]:
  "refresher (start r h tnr t u n) = r"
  "heap (start r h tnr t u n) = h"
  "testNeedsRefresh (start r h tnr t u n) = tnr"
  "clock (start r h tnr t u n) = t"
  "env (start r h tnr t u n) = u"
  "threads (start r h tnr t u n) = replicate n Start"
  "calls (start r h tnr t u n) = []"
  "results (start r h tnr t u n) = []"
  by (simp_all add: start_def)

lemma Load_alone_unfold:
  "Load_alone i c = exec (Step i) (exec (Step i) (exec (Step i) (exec (Step i)
     (exec (Step i) (exec (Step i) (exec (Step i) c))))))"
  by (simp add: Load_alone_def run_def eval_nat_numeral)

subsection \<open>What a step does at each place, as rewrite rules\<close>

lemma exec_at:
  "i < length (threads c) \<Longrightarrow> threads c ! i = q \<Longrightarrow>
   exec (Step i) c = (case step_pc i q c of None \<Rightarrow> c | Some c' \<Rightarrow> c')"
  by (simp add: step_def)

declare exec.simps(1) [simp del]

lemma exec_Start:
  "i < length (threads c) \<Longrightarrow> threads c ! i = Start \<Longrightarrow>
   exec (Step i) c = set_pc i (Switch (valp (refresher c))) c"
  by (simp add: exec_at)

lemma exec_Switch_first:
  "i < length (threads c) \<Longrightarrow> threads c ! i = Switch a \<Longrightarrow>
   testNeedsRefresh c \<or> when_t (heap c ! a) = 0 \<Longrightarrow>
   exec (Step i) c = set_pc i (FreshDo a) c"
  by (auto simp add: exec_at IsZero_def Let_def)

lemma exec_Switch_hit:
  "i < length (threads c) \<Longrightarrow> threads c ! i = Switch a \<Longrightarrow>
   \<not> testNeedsRefresh c \<Longrightarrow> when_t (heap c ! a) \<noteq> 0 \<Longrightarrow>
   clock c - when_t (heap c ! a) \<le> maxAge (refresher c) \<Longrightarrow>
   exec (Step i) c = set_pc i (Ret (val (heap c ! a), err (heap c ! a)) (Hit a)) c"
  by (simp add: exec_at IsZero_def since_def Let_def)

lemma exec_Switch_stale:
  "i < length (threads c) \<Longrightarrow> threads c ! i = Switch a \<Longrightarrow>
   \<not> testNeedsRefresh c \<Longrightarrow> when_t (heap c ! a) \<noteq> 0 \<Longrightarrow>
   \<not> clock c - when_t (heap c ! a) \<le> maxAge (refresher c) \<Longrightarrow>
   exec (Step i) c =
     set_pc i (if staleWhileRefresh (refresher c) then StaleCAS a else FreshDo a) c"
  by (simp add: exec_at IsZero_def since_def Let_def)

lemma exec_FreshDo_Unused:
  "i < length (threads c) \<Longrightarrow> threads c ! i = FreshDo a \<Longrightarrow>
   refresh (heap c ! a) = Unused \<Longrightarrow>
   exec (Step i) c = set_pc i (FreshCall a) (issue i a (set_refresh a Running c))"
  by (simp add: exec_at)

lemma exec_FreshDo_Running:
  "i < length (threads c) \<Longrightarrow> threads c ! i = FreshDo a \<Longrightarrow>
   refresh (heap c ! a) = Running \<Longrightarrow> exec (Step i) c = c"
  by (simp add: exec_at)

lemma exec_FreshDo_Done:
  "i < length (threads c) \<Longrightarrow> threads c ! i = FreshDo a \<Longrightarrow>
   refresh (heap c ! a) = Done \<Longrightarrow> exec (Step i) c = set_pc i (FreshReload a) c"
  by (simp add: exec_at)

lemma exec_FreshCall_nil:
  "i < length (threads c) \<Longrightarrow> threads c ! i = FreshCall a \<Longrightarrow>
   refreshFn (refresher c) = None \<Longrightarrow>
   exec (Step i) c = set_pc i Panicked (set_refresh a Done c)"
  by (simp add: exec_at)

lemma exec_FreshCall:
  "i < length (threads c) \<Longrightarrow> threads c ! i = FreshCall a \<Longrightarrow>
   refreshFn (refresher c) = Some f \<Longrightarrow>
   exec (Step i) c =
     set_pc i (FreshStore a (fst (f (env c))))
       (returned a (fst (f (env c))) (snd (f (env c))) c)"
  by (simp add: exec_at)

lemma exec_FreshStore:
  "i < length (threads c) \<Longrightarrow> threads c ! i = FreshStore a p \<Longrightarrow>
   exec (Step i) c = set_pc i (FreshExit a) (publish p c)"
  by (simp add: exec_at)

lemma exec_FreshExit:
  "i < length (threads c) \<Longrightarrow> threads c ! i = FreshExit a \<Longrightarrow>
   exec (Step i) c = set_pc i (FreshReload a) (set_refresh a Done c)"
  by (simp add: exec_at)

lemma exec_FreshReload:
  "i < length (threads c) \<Longrightarrow> threads c ! i = FreshReload a \<Longrightarrow>
   exec (Step i) c =
     set_pc i (Ret (val (heap c ! valp (refresher c)), err (heap c ! valp (refresher c)))
                 (Reloaded a (valp (refresher c)))) c"
  by (simp add: exec_at Let_def)

lemma exec_StaleCAS_won:
  "i < length (threads c) \<Longrightarrow> threads c ! i = StaleCAS a \<Longrightarrow>
   refreshStale (heap c ! a) = 0 \<Longrightarrow>
   exec (Step i) c = set_pc i (StaleCall a) (issue i a (set_refreshStale a 1 c))"
  by (simp add: exec_at Let_def)

lemma exec_StaleCAS_lost:
  "i < length (threads c) \<Longrightarrow> threads c ! i = StaleCAS a \<Longrightarrow>
   refreshStale (heap c ! a) \<noteq> 0 \<Longrightarrow>
   exec (Step i) c = set_pc i (Ret (val (heap c ! a), err (heap c ! a)) (Lost a)) c"
  by (simp add: exec_at Let_def)

lemma exec_StaleCall_nil:
  "i < length (threads c) \<Longrightarrow> threads c ! i = StaleCall a \<Longrightarrow>
   refreshFn (refresher c) = None \<Longrightarrow> exec (Step i) c = set_pc i Panicked c"
  by (simp add: exec_at)

lemma exec_StaleCall:
  "i < length (threads c) \<Longrightarrow> threads c ! i = StaleCall a \<Longrightarrow>
   refreshFn (refresher c) = Some f \<Longrightarrow>
   exec (Step i) c =
     set_pc i (StaleStore a (fst (f (env c))))
       (returned a (fst (f (env c))) (snd (f (env c))) c)"
  by (simp add: exec_at)

lemma exec_StaleStore:
  "i < length (threads c) \<Longrightarrow> threads c ! i = StaleStore a p \<Longrightarrow>
   exec (Step i) c = set_pc i (Ret p (Won a (length (heap c)))) (publish p c)"
  by (simp add: exec_at)

lemma exec_Ret: "threads c ! i = Ret p s \<Longrightarrow> exec (Step i) c = c"
  by (simp add: exec.simps step_def)

lemma exec_Panicked: "threads c ! i = Panicked \<Longrightarrow> exec (Step i) c = c"
  by (simp add: exec.simps step_def)

lemma exec_absent: "\<not> i < length (threads c) \<Longrightarrow> exec (Step i) c = c"
  by (simp add: exec.simps step_def)

lemmas exec_simps = exec_Start exec_Switch_first exec_Switch_hit exec_Switch_stale
  exec_FreshDo_Unused exec_FreshDo_Running exec_FreshDo_Done exec_FreshCall_nil exec_FreshCall
  exec_FreshStore exec_FreshExit exec_FreshReload exec_StaleCAS_won exec_StaleCAS_lost
  exec_StaleCall_nil exec_StaleCall exec_StaleStore exec_Ret exec_Panicked

section \<open>Construction\<close>

text \<open>
  C7: \<^verbatim>\<open>New\<close> panics with its message for every \<open>maxAge \<le> 0\<close>; for every positive \<open>maxAge\<close>
  it returns a Refresher with that \<open>maxAge\<close> and function, the blocking policy, and a current
  snapshot that is the sentinel: zero timestamp, \<^verbatim>\<open>nil\<close> value, no error, gate and flag unused.
\<close>

theorem New_maxAge:
  "(m \<le> 0 \<longrightarrow> New m f = Inl ''refresh: maxAge must be positive duration'') \<and>
   (0 < m \<longrightarrow> (\<exists>r h. New m f = Inr (r, h) \<and> maxAge r = m \<and> refreshFn r = f \<and>
       \<not> staleWhileRefresh r \<and> valp r < length h \<and>
       h ! valp r = \<lparr>val = None, err = None, when_t = 0, refresh = Unused, refreshStale = 0\<rparr>))"
  by (simp add: New_def zero_value_def)

theorem New_maxAge_witness:
  "New 0 (Some counter) = Inl ''refresh: maxAge must be positive duration'' \<and>
   New (- 1) (Some counter) = Inl ''refresh: maxAge must be positive duration'' \<and>
   (\<exists>r h. New 1 (Some counter) = Inr (r, h) \<and> maxAge r = 1 \<and> refreshFn r = Some counter \<and>
       \<not> staleWhileRefresh r \<and> valp r < length h \<and>
       h ! valp r = \<lparr>val = None, err = None, when_t = 0, refresh = Unused, refreshStale = 0\<rparr>)"
  using New_maxAge [of 0 "Some counter"] New_maxAge [of "- 1" "Some counter"]
    New_maxAge [of 1 "Some counter"]
  by simp

text \<open>
  C8, as the claim states it, fails: \<^verbatim>\<open>New\<close> with a \<^verbatim>\<open>nil\<close> function and a positive \<open>maxAge\<close>
  does not panic, it returns a Refresher.
\<close>

theorem New_nil_counterexample:
  "(New 1 None :: string + ((nat, string, nat) Refresher \<times> (nat, string) valueT list)) =
     Inr (\<lparr>valp = 0, maxAge = 1, refreshFn = None, staleWhileRefresh = False\<rparr>,
          [\<lparr>val = None, err = None, when_t = 0, refresh = Unused, refreshStale = 0\<rparr>])"
  by (simp add: New_def zero_value_def)

text \<open>
  C8, amended: \<^verbatim>\<open>New\<close> does not look at the function. With a positive \<open>maxAge\<close> and a \<^verbatim>\<open>nil\<close>
  function it returns a Refresher, and the failure comes at \<^verbatim>\<open>Load\<close> time: the first \<^verbatim>\<open>Load\<close>,
  under either policy, panics at the call of the function, with nothing published.
\<close>

theorem New_nil_accepted:
  assumes "0 < m" and "i < n"
  shows "\<exists>r h. New m None = Inr (r, h) \<and>
    threads (Load_alone i (start (SetStaleWhileRefresh swr r) h tnr t u n)) ! i = Panicked \<and>
    valp (refresher (Load_alone i (start (SetStaleWhileRefresh swr r) h tnr t u n))) = valp r \<and>
    length (heap (Load_alone i (start (SetStaleWhileRefresh swr r) h tnr t u n))) = length h"
proof -
  let ?r = "\<lparr>valp = 0, maxAge = m, refreshFn = None, staleWhileRefresh = False\<rparr>"
  let ?c = "Load_alone i (start (SetStaleWhileRefresh swr ?r) [zero_value] tnr t u n)"
  have "New m None = Inr (?r, [zero_value])"
    using assms by (simp add: New_def)
  moreover have "threads ?c ! i = Panicked \<and> valp (refresher ?c) = 0 \<and> length (heap ?c) = 1"
    using assms
    by (simp add: zero_value_def Load_alone_unfold SetStaleWhileRefresh_def exec_simps)
  ultimately show ?thesis
    by (intro exI [of _ ?r] exI [of _ "[zero_value]"]) simp
qed

theorem New_nil_accepted_witness:
  "\<exists>r h. New 1 None = Inr (r, h) \<and>
    threads (Load_alone 0 (start (SetStaleWhileRefresh True r) h False 5 (0::nat) 1)) ! 0
      = (Panicked :: (nat, string) pc) \<and>
    valp (refresher (Load_alone 0 (start (SetStaleWhileRefresh True r) h False 5 (0::nat) 1)))
      = valp r \<and>
    length (heap (Load_alone 0 (start (SetStaleWhileRefresh True r) h False 5 (0::nat) 1)))
      = length h"
  using New_nil_accepted [of 1 0 1 True False 5 0]
  by simp

end
